theory Spec2Isabelle
  imports Complex_Main
begin

section \<open>Data model (backend/models.py)\<close>

text \<open>
  The database rows of \<^verbatim>\<open>backend/models.py\<close>. Python floats (\<^verbatim>\<open>db.Float\<close> columns,
  coordinates, the threshold \<^verbatim>\<open>fd\<close>) are an abstract type \<open>'f\<close>: the handlers only
  store and pass them on, except for the mile conversion, whose float operations are
  parameters (\<open>float_ops\<close> below). Python \<^verbatim>\<open>int\<close> is \<open>int\<close>, \<^verbatim>\<open>str\<close> is \<open>string\<close>.
\<close>

datatype error = KeyError | IndexError | AttributeError | RequestException | InvalidThreshold

record user =
  u_id :: int
  u_name :: string
  email :: string
  password :: string
  access_level :: int

record 'f query =
  q_id :: int
  entry_o :: string
  entry_d :: string
  q_user_id :: int
  fd :: 'f

record tag =
  t_id :: int
  t_keyword :: string
  t_query_id :: int
  t_user_id :: int

text \<open>
  A \<^verbatim>\<open>Location\<close> object has no \<^verbatim>\<open>id\<close> until the session stores it (\<open>l_id = None\<close>), and
  its \<^verbatim>\<open>query_id\<close> column is nullable.
\<close>

record 'f location =
  l_id :: "int option"
  l_keyword :: string
  lat :: 'f
  lng :: 'f
  l_user_id :: int
  is_sp :: bool
  l_query_id :: "int option"

text \<open>
  \<^verbatim>\<open>Location.__init__(keyword, lat, lng, user_id, query_id=-1, is_sp=False)\<close>: the column
  \<^verbatim>\<open>query_id\<close> is set only when the argument is not the default \<^verbatim>\<open>-1\<close>.
\<close>

definition Location :: "string \<Rightarrow> 'f \<Rightarrow> 'f \<Rightarrow> int \<Rightarrow> int \<Rightarrow> bool \<Rightarrow> 'f location" where
  "Location keyword lat0 lng0 user_id query_id sp =
     \<lparr>l_id = None, l_keyword = keyword, lat = lat0, lng = lng0, l_user_id = user_id,
      is_sp = sp, l_query_id = (if query_id \<noteq> - 1 then Some query_id else None)\<rparr>"

record 'f db =
  users :: "user list"
  queries :: "'f query list"
  tags :: "tag list"
  locations :: "'f location list"

subsection \<open>The ORM calls the handlers make\<close>

text \<open>\<^verbatim>\<open>Model.query.filter_by(...).first()\<close>: the first matching row, or \<^verbatim>\<open>None\<close>.\<close>

definition first :: "'a list \<Rightarrow> 'a option" where
  "first rows = (case rows of [] \<Rightarrow> None | r # _ \<Rightarrow> Some r)"

text \<open>
  \<^verbatim>\<open>db.session.add(location); db.session.commit()\<close>: the row is appended with the next
  integer primary key (one more than the largest key in use, keys starting at 1).
\<close>

definition next_id :: "int option list \<Rightarrow> int" where
  "next_id ids = foldr (\<lambda>i m. case i of None \<Rightarrow> m | Some k \<Rightarrow> max k m) ids 0 + 1"

definition add_location :: "'f db \<Rightarrow> 'f location \<Rightarrow> 'f db" where
  "add_location d l =
     d\<lparr>locations := locations d @ [l\<lparr>l_id := Some (next_id (map l_id (locations d)))\<rparr>]\<rparr>"

text \<open>\<^verbatim>\<open>Query.query.filter_by(user_id=uid).order_by(Query.id.desc()).first()\<close>\<close>

definition latest_query_of :: "'f db \<Rightarrow> int \<Rightarrow> 'f query option" where
  "latest_query_of d uid =
     (case filter (\<lambda>q. q_user_id q = uid) (queries d) of
        [] \<Rightarrow> None
      | q # qs \<Rightarrow> Some (foldl (\<lambda>b c. if q_id b < q_id c then c else b) q qs))"

section \<open>Requests, responses and collaborators\<close>

text \<open>
  A JSON key of the request body is absent, \<^verbatim>\<open>null\<close>, or carries a value: the handlers
  tell the three apart (\<^verbatim>\<open>request_json['k']\<close> raises \<^verbatim>\<open>KeyError\<close> on an absent key,
  \<^verbatim>\<open>request_json.get('k')\<close> gives \<^verbatim>\<open>None\<close> for both other cases).
\<close>

datatype 'a field = Absent | Null | Val 'a

record ('tok, 'f) request_json =
  r_auth_token :: "'tok option"
  r_query_id :: "int field"
  r_entry_o :: "string option"
  r_entry_d :: "string option"
  r_distance :: "'f option"
  r_location :: "string option"
  r_location_id :: "int field"

datatype 'f json =
    JInt int
  | JFloat 'f
  | JStr string
  | JList "'f json list"
  | JObj "(string \<times> 'f json) list"

text \<open>
  What a handler returns: one of the two canned responses imported from
  \<^verbatim>\<open>backend.users.utils\<close>, or \<^verbatim>\<open>json.dumps\<close> of a dictionary (kept as the dictionary).
\<close>

datatype 'f response =
    token_expiration_json_response
  | insufficient_rights_json_response
  | Dumps "'f json"

record 'f deviation =
  d_name :: string
  d_lat :: 'f
  d_lng :: 'f

definition deviation_json :: "'f deviation \<Rightarrow> 'f json" where
  "deviation_json x = JObj [(''name'', JStr (d_name x)), (''lat'', JFloat (d_lat x)), (''lng'', JFloat (d_lng x))]"

text \<open>The consumed fields of the directions and place-search responses.\<close>

record step =
  polyline_points :: string
  duration_value :: int
  distance_value :: int

record leg =
  steps :: "step list option"
  leg_polyline_points :: "string option"

record route =
  legs :: "leg list"

record directions_result =
  routes :: "route list"

record 'f place_search_result =
  candidates :: "('f \<times> 'f) list"

record config =
  MAPS_DIRECTION_BASE :: string
  MAPS_PLACE_SEARCH_BASE :: string
  GCP_API_KEY :: string

text \<open>
  Python float arithmetic as the result handler uses it: \<^verbatim>\<open>int * float\<close>, \<^verbatim>\<open>float / int\<close>,
  the literal \<^verbatim>\<open>0.621371\<close>, \<^verbatim>\<open>round(x, n)\<close> and the formatting of a float in an f-string.
\<close>

record 'f float_ops =
  float_of_int :: "int \<Rightarrow> 'f"
  fmul :: "'f \<Rightarrow> 'f \<Rightarrow> 'f"
  ftruediv :: "'f \<Rightarrow> 'f \<Rightarrow> 'f"
  lit_0_621371 :: 'f
  round_ndigits :: "'f \<Rightarrow> int \<Rightarrow> 'f"
  float_str :: "'f \<Rightarrow> string"

text \<open>
  Everything the handlers call that is not in \<^verbatim>\<open>routes.py\<close> or \<^verbatim>\<open>models.py\<close>:
  \<^item> \<open>loads\<close>: \<^verbatim>\<open>Serializer(SECRET_KEY).loads(token)['user_id']\<close>, \<open>None\<close> when it raises
    \<^verbatim>\<open>BadSignature\<close>;
  \<^item> \<open>requests_post_directions\<close>, \<open>requests_get_directions\<close>, \<open>requests_post_place_search\<close>:
    the HTTP calls followed by \<^verbatim>\<open>.json()\<close>, which may raise;
  \<^item> \<open>polyline_encode\<close>: \<^verbatim>\<open>polyline.encode\<close> of the polyline package;
  \<^item> \<open>pathDeviationPoints\<close>, \<open>get_deviation_points_impl\<close>, \<open>create_query\<close>: the helpers of
    \<^verbatim>\<open>backend.maps.utils\<close>; the last two may touch the database.
\<close>

record ('tok, 'f) env =
  loads :: "'tok \<Rightarrow> int option"
  requests_post_directions :: "string \<Rightarrow> error + directions_result"
  requests_get_directions :: "string \<Rightarrow> (string \<times> string) list \<Rightarrow> error + directions_result"
  requests_post_place_search :: "string \<Rightarrow> error + 'f place_search_result"
  polyline_encode :: "('f \<times> 'f) list \<Rightarrow> string"
  pathDeviationPoints :: "string list \<Rightarrow> 'f \<Rightarrow> string list \<Rightarrow> string \<Rightarrow> error + 'f deviation list"
  get_deviation_points_impl :: "'f db \<Rightarrow> int \<Rightarrow> error + ('f deviation list \<times> 'f db)"
  create_query :: "string \<Rightarrow> string \<Rightarrow> int \<Rightarrow> bool \<Rightarrow> 'f \<Rightarrow> 'f db \<Rightarrow> error + 'f db"
  flt :: "'f float_ops"

section \<open>Authentication (User.verify\_auth\_token)\<close>

definition verify_auth_token :: "('tok, 'f) env \<Rightarrow> 'f db \<Rightarrow> 'tok \<Rightarrow> user option" where
  "verify_auth_token e d token =
     (case loads e token of
        None \<Rightarrow> None
      | Some user_id \<Rightarrow> find (\<lambda>u. u_id u = user_id) (users d))"

section \<open>The handlers of backend/maps/routes.py\<close>

definition status_message :: "int \<Rightarrow> string \<Rightarrow> 'f response" where
  "status_message s m = Dumps (JObj [(''status'', JInt s), (''message'', JStr m)])"

subsection \<open>create\_new\_query\<close>

definition create_new_query ::
  "('tok, 'f) env \<Rightarrow> 'f db \<Rightarrow> ('tok, 'f) request_json \<Rightarrow> error + ('f response \<times> 'f db)" where
  "create_new_query e d rq =
     (case r_auth_token rq of None \<Rightarrow> Inl KeyError | Some auth_token \<Rightarrow>
      case verify_auth_token e d auth_token of
        None \<Rightarrow> Inr (token_expiration_json_response, d)
      | Some usr \<Rightarrow>
         (case r_entry_o rq of None \<Rightarrow> Inl KeyError | Some eo \<Rightarrow>
          case r_entry_d rq of None \<Rightarrow> Inl KeyError | Some ed \<Rightarrow>
          case r_distance rq of None \<Rightarrow> Inl KeyError | Some distance \<Rightarrow>
          case create_query e eo ed (u_id usr) True distance d of
            Inl err \<Rightarrow> Inl err
          | Inr d' \<Rightarrow> Inr (status_message 0 ''User query created successfully'', d')))"

subsection \<open>delete\_query\<close>

definition delete_query ::
  "('tok, 'f) env \<Rightarrow> 'f db \<Rightarrow> ('tok, 'f) request_json \<Rightarrow> error + ('f response \<times> 'f db)" where
  "delete_query e d rq =
     (case r_auth_token rq of None \<Rightarrow> Inl KeyError | Some auth_token \<Rightarrow>
      case verify_auth_token e d auth_token of
        None \<Rightarrow> Inr (token_expiration_json_response, d)
      | Some usr \<Rightarrow>
         (case r_query_id rq of
            Absent \<Rightarrow> Inl KeyError
          | Null \<Rightarrow> Inr (status_message 3 ''query_id is of type None'', d)
          | Val query_id \<Rightarrow>
             (case first (filter (\<lambda>q. q_id q = query_id) (queries d)) of
                None \<Rightarrow> Inr (status_message 3 ''query is of type None'', d)
              | Some qry \<Rightarrow>
                 if u_id usr \<noteq> q_user_id qry
                 then Inr (status_message 3 ''query does not belong to this user'', d)
                 else Inr (status_message 0 ''User query deleted successfully'',
                           d\<lparr>queries := filter (\<lambda>q. q_id q \<noteq> query_id) (queries d)\<rparr>))))"

subsection \<open>compute\_query\_result\<close>

text \<open>
  Lines 133 to 138: the polylines handed to \<^verbatim>\<open>pathDeviationPoints\<close>. \<^verbatim>\<open>routes[0]\<close> and
  \<^verbatim>\<open>legs[0]\<close> raise \<^verbatim>\<open>IndexError\<close> on an empty list, \<^verbatim>\<open>base_leg['polyline']\<close> raises
  \<^verbatim>\<open>KeyError\<close> when the leg has neither steps nor a polyline.
\<close>

definition base_leg_of :: "directions_result \<Rightarrow> error + leg" where
  "base_leg_of direction_result =
     (case routes direction_result of
        [] \<Rightarrow> Inl IndexError
      | r # _ \<Rightarrow> (case legs r of [] \<Rightarrow> Inl IndexError | l # _ \<Rightarrow> Inr l))"

definition polylines_of :: "leg \<Rightarrow> error + string list" where
  "polylines_of base_leg =
     (case steps base_leg of
        None \<Rightarrow> (case leg_polyline_points base_leg of
                   None \<Rightarrow> Inl KeyError
                 | Some pts \<Rightarrow> Inr [pts])
      | Some sts \<Rightarrow> Inr (map polyline_points sts))"

definition directions_url :: "config \<Rightarrow> 'f query \<Rightarrow> string" where
  "directions_url cfg qry =
     MAPS_DIRECTION_BASE cfg @ ''?origin='' @ entry_o qry @ ''&destination='' @ entry_d qry
       @ ''&mode=driving'' @ ''&key='' @ GCP_API_KEY cfg"

text \<open>
  The loop of lines 141 to 145: one \<^verbatim>\<open>Location\<close> row per deviation, each added and
  committed in turn. \<^verbatim>\<open>is_sp\<close> is left at its default \<^verbatim>\<open>False\<close>.
\<close>

definition store_deviations :: "'f query \<Rightarrow> 'f db \<Rightarrow> 'f deviation list \<Rightarrow> 'f db" where
  "store_deviations qry d deviations =
     foldl (\<lambda>acc curr_deviation.
              add_location acc
                (Location (d_name curr_deviation) (d_lat curr_deviation) (d_lng curr_deviation)
                   (q_user_id qry) (q_id qry) False))
       d deviations"

text \<open>
  The handler takes no token; its argument comes from the route
  \<^verbatim>\<open>/map/query/compute/<int:query_id>\<close>, whose converter matches unsigned decimal numbers
  only, so it is a natural number. With no row of that id, \<^verbatim>\<open>query\<close> is \<^verbatim>\<open>None\<close> and
  \<^verbatim>\<open>query.entry_o\<close> raises \<^verbatim>\<open>AttributeError\<close>.
\<close>

definition compute_query_result ::
  "('tok, 'f) env \<Rightarrow> config \<Rightarrow> 'f db \<Rightarrow> nat \<Rightarrow> error + ('f response \<times> 'f db)" where
  "compute_query_result e cfg d query_id =
     (case first (filter (\<lambda>q. q_id q = int query_id) (queries d)) of
        None \<Rightarrow> Inl AttributeError
      | Some qry \<Rightarrow>
         (case requests_post_directions e (directions_url cfg qry) of Inl err \<Rightarrow> Inl err
          | Inr direction_result \<Rightarrow>
          case base_leg_of direction_result of Inl err \<Rightarrow> Inl err
          | Inr base_leg \<Rightarrow>
          case polylines_of base_leg of Inl err \<Rightarrow> Inl err
          | Inr polylines \<Rightarrow>
          case pathDeviationPoints e polylines (fd qry)
                 (map t_keyword (filter (\<lambda>t. t_query_id t = q_id qry) (tags d))) [] of
            Inl err \<Rightarrow> Inl err
          | Inr deviations \<Rightarrow>
             Inr (Dumps (JObj [(''status'', JInt 0),
                               (''message'', JStr ''Basic Route Created Successfully''),
                               (''deviations'', JList (map deviation_json deviations))]),
                  store_deviations qry d deviations)))"

subsection \<open>create\_query\_result\<close>

text \<open>Python's \<^verbatim>\<open>str\<close> of an integer, as an f-string prints it.\<close>

fun digits :: "nat \<Rightarrow> string" where
  "digits n = (if n < 10 then [''0123456789'' ! n] else digits (n div 10) @ [''0123456789'' ! (n mod 10)])"

declare digits.simps [simp del]

definition str_int :: "int \<Rightarrow> string" where
  "str_int i = (if i < 0 then CHR ''-'' # digits (nat (- i)) else digits (nat i))"

text \<open>Lines 195 to 201: the parameters of the directions request.\<close>

definition param_dict_of :: "('tok, 'f) env \<Rightarrow> config \<Rightarrow> 'f query \<Rightarrow> 'f deviation list \<Rightarrow> (string \<times> string) list" where
  "param_dict_of e cfg qry deviations =
     [(''origin'', entry_o qry), (''destination'', entry_d qry), (''key'', GCP_API_KEY cfg)]
     @ (if length deviations \<noteq> 0
        then [(''waypoints'',
               ''via:enc:'' @ polyline_encode e (map (\<lambda>x. (d_lat x, d_lng x)) deviations) @ '':'')]
        else [])"

text \<open>
  Lines 205 to 209. \<^verbatim>\<open>['steps']\<close> raises \<^verbatim>\<open>KeyError\<close> on a leg without steps; \<^verbatim>\<open>//\<close> on
  Python integers is floor division, which is \<open>div\<close> on \<open>int\<close>.
\<close>

definition time_str :: "int \<Rightarrow> string" where
  "time_str duration =
     str_int (duration div 3600) @ '':'' @ str_int ((duration - (duration div 3600) * 3600) div 60)"

definition distance_str :: "'f float_ops \<Rightarrow> int \<Rightarrow> string" where
  "distance_str fo distance =
     float_str fo
       (round_ndigits fo
          (ftruediv fo (fmul fo (float_of_int fo distance) (lit_0_621371 fo)) (float_of_int fo 1000)) 2)"

definition result_steps :: "directions_result \<Rightarrow> error + step list" where
  "result_steps distance_request =
     (case base_leg_of distance_request of Inl err \<Rightarrow> Inl err
      | Inr l \<Rightarrow> (case steps l of None \<Rightarrow> Inl KeyError | Some sts \<Rightarrow> Inr sts))"

definition result_json :: "'f float_ops \<Rightarrow> 'f query \<Rightarrow> 'f deviation list \<Rightarrow> step list \<Rightarrow> 'f json" where
  "result_json fo qry deviations sts =
     (let duration = sum_list (map duration_value sts);
          distance = sum_list (map distance_value sts)
      in JObj [(''status'', JInt 0), (''message'', JStr ''Basic Route Created Successfully''),
               (''start'', JStr (entry_o qry)), (''end'', JStr (entry_d qry)),
               (''deviations'', JList (map deviation_json deviations)),
               (''time'', JStr (time_str duration)),
               (''distance'', JStr (distance_str fo distance))])"

text \<open>
  Lines 184 to 188: without a \<^verbatim>\<open>query_id\<close> (absent or \<^verbatim>\<open>null\<close>) the user's latest query
  is taken, otherwise the query of that id, whoever owns it.
\<close>

definition requested_query :: "'f db \<Rightarrow> user \<Rightarrow> ('tok, 'f) request_json \<Rightarrow> 'f query option" where
  "requested_query d usr rq =
     (case r_query_id rq of
        Val query_id \<Rightarrow> first (filter (\<lambda>q. q_id q = query_id) (queries d))
      | _ \<Rightarrow> latest_query_of d (u_id usr))"

definition create_query_result ::
  "('tok, 'f) env \<Rightarrow> config \<Rightarrow> 'f db \<Rightarrow> ('tok, 'f) request_json \<Rightarrow> error + ('f response \<times> 'f db)" where
  "create_query_result e cfg d rq =
     (case r_auth_token rq of None \<Rightarrow> Inl KeyError | Some auth_token \<Rightarrow>
      case verify_auth_token e d auth_token of
        None \<Rightarrow> Inr (token_expiration_json_response, d)
      | Some usr \<Rightarrow>
         (case requested_query d usr rq of
            None \<Rightarrow> Inr (status_message 3 ''Requested query does not exist'', d)
          | Some qry \<Rightarrow>
             (case get_deviation_points_impl e d (q_id qry) of Inl err \<Rightarrow> Inl err
              | Inr (deviations, d') \<Rightarrow>
              case requests_get_directions e (MAPS_DIRECTION_BASE cfg)
                     (param_dict_of e cfg qry deviations) of Inl err \<Rightarrow> Inl err
              | Inr distance_request \<Rightarrow>
              case result_steps distance_request of Inl err \<Rightarrow> Inl err
              | Inr sts \<Rightarrow> Inr (Dumps (result_json (flt e) qry deviations sts), d'))))"

subsection \<open>get\_user\_query\<close>

definition query_json :: "'f query \<Rightarrow> 'f json" where
  "query_json x = JObj [(''id'', JInt (q_id x)), (''start'', JStr (entry_o x)),
                        (''end'', JStr (entry_d x)), (''distance'', JFloat (fd x))]"

definition get_user_query ::
  "('tok, 'f) env \<Rightarrow> 'f db \<Rightarrow> ('tok, 'f) request_json \<Rightarrow> error + ('f response \<times> 'f db)" where
  "get_user_query e d rq =
     (case r_auth_token rq of None \<Rightarrow> Inl KeyError | Some auth_token \<Rightarrow>
      case verify_auth_token e d auth_token of
        None \<Rightarrow> Inr (token_expiration_json_response, d)
      | Some usr \<Rightarrow>
         (let all_queries = queries d
          in Inr (Dumps (JObj [(''status'', JInt 0),
                               (''message'', JStr ''Request fulfilled successfully''),
                               (''queries'', JList (map query_json all_queries))]), d)))"

subsection \<open>add\_sponsor\_location and delete\_location\<close>

definition place_search_url :: "config \<Rightarrow> string \<Rightarrow> string" where
  "place_search_url cfg new_location =
     MAPS_PLACE_SEARCH_BASE cfg @ ''?input='' @ new_location @ ''&inputtype=textquery''
       @ ''&key='' @ GCP_API_KEY cfg"

definition add_sponsor_location ::
  "('tok, 'f) env \<Rightarrow> config \<Rightarrow> 'f db \<Rightarrow> ('tok, 'f) request_json \<Rightarrow> error + ('f response \<times> 'f db)" where
  "add_sponsor_location e cfg d rq =
     (case r_auth_token rq of None \<Rightarrow> Inl KeyError | Some auth_token \<Rightarrow>
      case verify_auth_token e d auth_token of
        None \<Rightarrow> Inr (token_expiration_json_response, d)
      | Some usr \<Rightarrow>
         if access_level usr < 1 then Inr (insufficient_rights_json_response, d)
         else
          (case r_location rq of None \<Rightarrow> Inl KeyError | Some new_location \<Rightarrow>
           case requests_post_place_search e (place_search_url cfg new_location) of
             Inl err \<Rightarrow> Inl err
           | Inr place_search_result \<Rightarrow>
              (case candidates place_search_result of
                 [] \<Rightarrow> Inl IndexError
               | (lat0, lng0) # _ \<Rightarrow>
                  Inr (status_message 0 ''Sponsor Location Added Successfully'',
                       add_location d (Location new_location lat0 lng0 (u_id usr) (- 1) True)))))"

definition delete_location ::
  "('tok, 'f) env \<Rightarrow> 'f db \<Rightarrow> ('tok, 'f) request_json \<Rightarrow> error + ('f response \<times> 'f db)" where
  "delete_location e d rq =
     (case r_auth_token rq of None \<Rightarrow> Inl KeyError | Some auth_token \<Rightarrow>
      case verify_auth_token e d auth_token of
        None \<Rightarrow> Inr (token_expiration_json_response, d)
      | Some usr \<Rightarrow>
         (case r_location_id rq of
            Absent \<Rightarrow> Inl KeyError
          | fld \<Rightarrow>
             (let location_id = (case fld of Val i \<Rightarrow> Some i | _ \<Rightarrow> None)
              in case first (filter (\<lambda>l. l_id l = location_id) (locations d)) of
                   None \<Rightarrow> Inr (status_message 3 ''Location not found'', d)
                 | Some loc \<Rightarrow>
                    if u_id usr \<noteq> l_user_id loc
                    then Inr (status_message 3 ''The requested location does not belong to this user'', d)
                    else Inr (status_message 0 ''Sponsor location deleted successfully'',
                              d\<lparr>locations := filter (\<lambda>l. l_id l \<noteq> location_id) (locations d)\<rparr>))))"

section \<open>The helpers of backend/maps/utils.py\<close>

text \<open>
  Modelled from the spec: \<^verbatim>\<open>get_deviation_points\<close> is defined in
  \<^verbatim>\<open>backend/maps/utils.py\<close>, which is not among the sources. Section 4.6 of the
  specification says that fetching results returns the previously persisted Stopovers
  without invoking the Deviation Point Finder or the Place Resolver, and section 6 gives a
  deviation the fields name, lat and lng. So the model reads the Location rows that refer
  to the query, in stored order, and leaves the database as it is.
\<close>

definition get_deviation_points :: "'f db \<Rightarrow> int \<Rightarrow> error + ('f deviation list \<times> 'f db)" where
  "get_deviation_points d query_id =
     Inr (map (\<lambda>l. \<lparr>d_name = l_keyword l, d_lat = lat l, d_lng = lng l\<rparr>)
            (filter (\<lambda>l. l_query_id l = Some query_id) (locations d)), d)"

text \<open>
  Modelled from the spec: the Deviation Point Finder inside \<^verbatim>\<open>pathDeviationPoints\<close>
  (\<^verbatim>\<open>backend/maps/utils.py\<close>, not among the sources), after section 4.3 of the
  specification. The segments are concatenated; a cursor starts at the first coordinate
  and an accumulator at zero; for each later coordinate \<open>p\<close> the distance from the cursor
  is added and the cursor moves to \<open>p\<close>; when the accumulator has reached \<open>fd\<close> the point
  is emitted and the accumulator reset, except that the final endpoint is never emitted.
  A non-positive threshold is rejected before any sampling (section 7). Distances are
  real numbers given by a parameter \<open>distance\<close>. \<open>sample\<close> also records the position of each
  emitted point in the concatenated path, so that along-path distances can be stated.
\<close>

fun sample :: "('p \<Rightarrow> 'p \<Rightarrow> real) \<Rightarrow> real \<Rightarrow> 'p \<Rightarrow> real \<Rightarrow> nat \<Rightarrow> 'p list \<Rightarrow> (nat \<times> 'p) list" where
  "sample distance thr previous acc i [] = []"
| "sample distance thr previous acc i (p # ps) =
     (if thr \<le> acc + distance previous p
      then (if ps = [] then [] else (i, p) # sample distance thr p 0 (Suc i) ps)
      else sample distance thr p (acc + distance previous p) (Suc i) ps)"

definition emitted :: "('p \<Rightarrow> 'p \<Rightarrow> real) \<Rightarrow> real \<Rightarrow> 'p list \<Rightarrow> (nat \<times> 'p) list" where
  "emitted distance thr path = (case path of [] \<Rightarrow> [] | p0 # ps \<Rightarrow> sample distance thr p0 0 1 ps)"

definition deviation_point_finder ::
  "('p \<Rightarrow> 'p \<Rightarrow> real) \<Rightarrow> real \<Rightarrow> 'p list list \<Rightarrow> error + 'p list" where
  "deviation_point_finder distance thr segments =
     (if thr \<le> 0 then Inl InvalidThreshold
      else Inr (map snd (emitted distance thr (concat segments))))"

text \<open>
  The distance travelled along a path between positions \<open>a\<close> and \<open>b\<close>, the length of the
  whole path, and the spacing of a list of positions: each at least \<open>thr\<close> further along
  the path than the one before it (the first one counted from position \<open>a\<close>).
\<close>

definition along :: "('p \<Rightarrow> 'p \<Rightarrow> real) \<Rightarrow> 'p list \<Rightarrow> nat \<Rightarrow> nat \<Rightarrow> real" where
  "along distance path a b = sum_list (map (\<lambda>k. distance (path ! k) (path ! Suc k)) [a..<b])"

definition total_path_length :: "('p \<Rightarrow> 'p \<Rightarrow> real) \<Rightarrow> 'p list \<Rightarrow> real" where
  "total_path_length distance path = along distance path 0 (length path - 1)"

fun spaced :: "('p \<Rightarrow> 'p \<Rightarrow> real) \<Rightarrow> real \<Rightarrow> 'p list \<Rightarrow> nat \<Rightarrow> nat list \<Rightarrow> bool" where
  "spaced distance thr path a [] = True"
| "spaced distance thr path a (j # js) =
     (a < j \<and> j < length path \<and> thr \<le> along distance path a j \<and> spaced distance thr path j js)"

section \<open>Notions used to state the properties\<close>

text \<open>A key of a \<^verbatim>\<open>json.dumps\<close> response; the canned responses have none.\<close>

definition response_field :: "string \<Rightarrow> 'f response \<Rightarrow> 'f json option" where
  "response_field k resp = (case resp of Dumps (JObj kvs) \<Rightarrow> map_of kvs k | _ \<Rightarrow> None)"

text \<open>
  The invariant of the data model: a Location row that refers to a query of the database
  has that query's owner as its own.
\<close>

definition stopover_owner_inv :: "'f db \<Rightarrow> bool" where
  "stopover_owner_inv d =
     list_all (\<lambda>l. list_all (\<lambda>q. l_query_id l = Some (q_id q) \<longrightarrow> l_user_id l = q_user_id q)
                       (queries d))
       (locations d)"

section \<open>A concrete installation\<close>

text \<open>
  Two users, one query of the second user with one tag and one stored stopover, and
  collaborators that answer with fixed values. Floats are rationals here, with exact
  arithmetic; the encoder is a stand-in that writes one character per point, and the
  stand-in for \<^verbatim>\<open>pathDeviationPoints\<close> returns one stopover per polyline, named after it.
\<close>

definition alice :: user where
  "alice = \<lparr>u_id = 1, u_name = ''alice'', email = ''alice@example.org'', password = ''x'', access_level = 0\<rparr>"

definition bob :: user where
  "bob = \<lparr>u_id = 2, u_name = ''bob'', email = ''bob@example.org'', password = ''y'', access_level = 1\<rparr>"

definition bobs_query :: "rat query" where
  "bobs_query = \<lparr>q_id = 7, entry_o = ''Miami'', entry_d = ''Orlando'', q_user_id = 2, fd = 50\<rparr>"

definition bobs_stopover :: "rat location" where
  "bobs_stopover = \<lparr>l_id = Some 1, l_keyword = ''Cafe Sol'', lat = 26, lng = - 80, l_user_id = 2,
                     is_sp = False, l_query_id = Some 7\<rparr>"

definition demo_db :: "rat db" where
  "demo_db = \<lparr>users = [alice, bob], queries = [bobs_query],
              tags = [\<lparr>t_id = 1, t_keyword = ''cafe'', t_query_id = 7, t_user_id = 2\<rparr>],
              locations = [bobs_stopover]\<rparr>"

definition demo_steps :: "step list" where
  "demo_steps = [\<lparr>polyline_points = ''ab'', duration_value = 600, distance_value = 1000\<rparr>,
                 \<lparr>polyline_points = ''cd'', duration_value = 900, distance_value = 2000\<rparr>,
                 \<lparr>polyline_points = ''ef'', duration_value = 1500, distance_value = 3000\<rparr>]"

definition demo_directions :: directions_result where
  "demo_directions = \<lparr>routes = [\<lparr>legs = [\<lparr>steps = Some demo_steps, leg_polyline_points = None\<rparr>]\<rparr>]\<rparr>"

definition demo_float_str :: "rat \<Rightarrow> string" where
  "demo_float_str x =
     (let c = \<lfloor>x * 100\<rfloor>
      in str_int (c div 100) @ ''.'' @ digits (nat ((c mod 100) div 10))
         @ (if c mod 10 = 0 then [] else digits (nat (c mod 10))))"

definition demo_float_ops :: "rat float_ops" where
  "demo_float_ops =
     \<lparr>float_of_int = of_int, fmul = (\<lambda>x y. x * y), ftruediv = (\<lambda>x y. x / y),
      lit_0_621371 = 621371 / 1000000,
      round_ndigits = (\<lambda>x n. of_int (round (x * 10 ^ nat n)) / 10 ^ nat n),
      float_str = demo_float_str\<rparr>"

definition demo_single_leg :: directions_result where
  "demo_single_leg = \<lparr>routes = [\<lparr>legs = [\<lparr>steps = None, leg_polyline_points = Some ''abcdef''\<rparr>]\<rparr>]\<rparr>"

definition demo_env :: "(string, rat) env" where
  "demo_env =
     \<lparr>loads = (\<lambda>t. if t = ''alice-token'' then Some 1 else if t = ''bob-token'' then Some 2 else None),
      requests_post_directions = (\<lambda>url. Inr demo_directions),
      requests_get_directions = (\<lambda>base params. Inr demo_directions),
      requests_post_place_search = (\<lambda>url. Inr \<lparr>candidates = [(25, - 80)]\<rparr>),
      polyline_encode = (\<lambda>pts. replicate (length pts) CHR ''p''),
      pathDeviationPoints =
        (\<lambda>polylines thr keywords s. Inr (map (\<lambda>p. \<lparr>d_name = p, d_lat = 27, d_lng = - 81\<rparr>) polylines)),
      get_deviation_points_impl = get_deviation_points,
      create_query = (\<lambda>eo ed uid manual thr d. Inr d),
      flt = demo_float_ops\<rparr>"

definition demo_config :: config where
  "demo_config = \<lparr>MAPS_DIRECTION_BASE = ''https://maps.example/directions'',
                  MAPS_PLACE_SEARCH_BASE = ''https://maps.example/place'',
                  GCP_API_KEY = ''k''\<rparr>"

definition demo_request :: "string \<Rightarrow> int field \<Rightarrow> (string, rat) request_json" where
  "demo_request token qid =
     \<lparr>r_auth_token = Some token, r_query_id = qid, r_entry_o = Some ''Miami'',
      r_entry_d = Some ''Tampa'', r_distance = Some 40, r_location = Some ''Pier 1'',
      r_location_id = Val 1\<rparr>"

text \<open>The database after compute deviations for query 7, and after bob adds a sponsor location.\<close>

definition demo_db_computed :: "rat db" where
  "demo_db_computed =
     demo_db\<lparr>locations := locations demo_db @
       [\<lparr>l_id = Some 2, l_keyword = ''ab'', lat = 27, lng = - 81, l_user_id = 2,
         is_sp = False, l_query_id = Some 7\<rparr>,
        \<lparr>l_id = Some 3, l_keyword = ''cd'', lat = 27, lng = - 81, l_user_id = 2,
         is_sp = False, l_query_id = Some 7\<rparr>,
        \<lparr>l_id = Some 4, l_keyword = ''ef'', lat = 27, lng = - 81, l_user_id = 2,
         is_sp = False, l_query_id = Some 7\<rparr>]\<rparr>"

definition demo_db_sponsored :: "rat db" where
  "demo_db_sponsored =
     demo_db\<lparr>locations := locations demo_db @
       [\<lparr>l_id = Some 2, l_keyword = ''Pier 1'', lat = 25, lng = - 80, l_user_id = 2,
         is_sp = True, l_query_id = None\<rparr>]\<rparr>"

text \<open>The same installation before any stopover is stored.\<close>

definition demo_db_fresh :: "rat db" where
  "demo_db_fresh = demo_db\<lparr>locations := []\<rparr>"

definition demo_result_json :: "rat json list \<Rightarrow> rat json" where
  "demo_result_json deviations =
     JObj [(''status'', JInt 0), (''message'', JStr ''Basic Route Created Successfully''),
           (''start'', JStr ''Miami''), (''end'', JStr ''Orlando''),
           (''deviations'', JList deviations),
           (''time'', JStr ''0:50''), (''distance'', JStr ''3.73'')]"

definition cafe_sol_json :: "rat json" where
  "cafe_sol_json = JObj [(''name'', JStr ''Cafe Sol''), (''lat'', JFloat 26), (''lng'', JFloat (- 80))]"

text \<open>A straight road: points are positions in kilometres, the distance is their difference.\<close>

definition line_dist :: "real \<Rightarrow> real \<Rightarrow> real" where
  "line_dist a b = \<bar>b - a\<bar>"

section \<open>Facts about the concrete installation\<close>

lemmas demo_defs =
  demo_env_def demo_db_def demo_config_def demo_request_def alice_def bob_def bobs_query_def
  bobs_stopover_def demo_directions_def demo_steps_def demo_float_ops_def demo_single_leg_def

lemma verify_alice: "verify_auth_token demo_env demo_db ''alice-token'' = Some alice"
  by (simp add: verify_auth_token_def demo_defs)

lemma verify_bob: "verify_auth_token demo_env demo_db ''bob-token'' = Some bob"
  by (simp add: verify_auth_token_def demo_defs)

lemma verify_mallory: "verify_auth_token demo_env demo_db ''mallory'' = None"
  by (simp add: verify_auth_token_def demo_defs)

lemma first_query_7: "first (filter (\<lambda>q. q_id q = 7) (queries demo_db)) = Some bobs_query"
  by (simp add: first_def demo_defs)

lemma first_query_7_nat: "first (filter (\<lambda>q. q_id q = int 7) (queries demo_db)) = Some bobs_query"
  by (simp add: first_query_7)

lemma demo_request_token: "r_auth_token (demo_request token qid) = Some token"
  by (simp add: demo_request_def)

lemma demo_request_query_id: "r_query_id (demo_request token qid) = qid"
  by (simp add: demo_request_def)

lemma requested_query_bob:
  "requested_query demo_db usr (demo_request token (Val 7)) = Some bobs_query"
  by (simp add: requested_query_def demo_request_def first_query_7)

lemma requested_query_fresh:
  "requested_query demo_db_fresh usr (demo_request token (Val 7)) = Some bobs_query"
  by (simp add: requested_query_def demo_request_def first_def demo_db_fresh_def demo_db_def bobs_query_def)

lemma verify_bob_fresh: "verify_auth_token demo_env demo_db_fresh ''bob-token'' = Some bob"
  by (simp add: verify_auth_token_def demo_db_fresh_def demo_defs)

lemma stored_deviations_demo:
  "get_deviation_points_impl demo_env demo_db (q_id bobs_query) =
     Inr ([\<lparr>d_name = ''Cafe Sol'', d_lat = 26, d_lng = - 80\<rparr>], demo_db)"
  by (simp add: demo_env_def get_deviation_points_def demo_db_def bobs_query_def bobs_stopover_def)

lemma stored_deviations_fresh:
  "get_deviation_points_impl demo_env demo_db_fresh (q_id bobs_query) = Inr ([], demo_db_fresh)"
  by (simp add: demo_env_def get_deviation_points_def demo_db_fresh_def)

lemma demo_get_directions: "requests_get_directions demo_env base params = Inr demo_directions"
  by (simp add: demo_env_def)

lemma str_int_0: "str_int 0 = ''0''"
  by (simp add: str_int_def digits.simps [of 0])

lemma str_int_50: "str_int 50 = ''50''"
  by (simp add: str_int_def digits.simps [of 50] digits.simps [of 5])

lemma demo_miles:
  "float_str (flt demo_env)
     (round_ndigits (flt demo_env)
        (ftruediv (flt demo_env)
           (fmul (flt demo_env) (float_of_int (flt demo_env) 6000) (lit_0_621371 (flt demo_env)))
           (float_of_int (flt demo_env) 1000)) 2) = ''3.73''"
proof -
  have r: "round_ndigits demo_float_ops
          (ftruediv demo_float_ops
             (fmul demo_float_ops (float_of_int demo_float_ops 6000) (lit_0_621371 demo_float_ops))
             (float_of_int demo_float_ops 1000)) 2 = 373 / 100"
    by (simp add: demo_float_ops_def round_def floor_eq_iff)
  have s: "demo_float_str (373 / 100) = ''3.73''"
    by (simp add: demo_float_str_def Let_def str_int_def digits.simps [of 3] digits.simps [of 7])
  have fl: "flt demo_env = demo_float_ops"
    by (simp add: demo_env_def)
  have fs: "float_str demo_float_ops = demo_float_str"
    by (simp add: demo_float_ops_def)
  show ?thesis
    by (simp only: fl fs r s)
qed

section \<open>Deleting a query\<close>

text \<open>
  C7. A delete-query request whose authenticated user is not the owner of the referenced
  query gets the status 3 answer, and the database, the query included, stays as it was.
\<close>

theorem delete_query_rejects_other_user:
  assumes "r_auth_token rq = Some token"
    and "verify_auth_token e d token = Some usr"
    and "r_query_id rq = Val query_id"
    and "first (filter (\<lambda>q. q_id q = query_id) (queries d)) = Some qry"
    and "u_id usr \<noteq> q_user_id qry"
  shows "delete_query e d rq = Inr (status_message 3 ''query does not belong to this user'', d)"
  using assms by (simp add: delete_query_def)

theorem delete_query_rejects_other_user_witness:
  "u_id alice \<noteq> q_user_id bobs_query \<and> bobs_query \<in> set (queries demo_db) \<and>
   delete_query demo_env demo_db (demo_request ''alice-token'' (Val 7))
     = Inr (status_message 3 ''query does not belong to this user'', demo_db)"
proof -
  have ne: "u_id alice \<noteq> q_user_id bobs_query"
    by (simp add: alice_def bobs_query_def)
  have mem: "bobs_query \<in> set (queries demo_db)"
    by (simp add: demo_db_def)
  from delete_query_rejects_other_user
         [OF demo_request_token verify_alice demo_request_query_id first_query_7 ne] ne mem
  show ?thesis by simp
qed

text \<open>The other direction: whenever the handler changes the database, the requester owns the query.\<close>

lemma delete_query_changes_only_for_owner:
  assumes "delete_query e d rq = Inr (resp, d')" and "d' \<noteq> d"
  shows "\<exists>token usr query_id qry.
           r_auth_token rq = Some token \<and> verify_auth_token e d token = Some usr \<and>
           r_query_id rq = Val query_id \<and>
           first (filter (\<lambda>q. q_id q = query_id) (queries d)) = Some qry \<and>
           u_id usr = q_user_id qry"
  using assms
  by (auto simp: delete_query_def split: option.splits field.splits if_splits)

section \<open>Rejected tokens\<close>

text \<open>
  C10. In each of the six handlers that verify a token, a token for which verification
  gives no user yields the token-expiration response and the database it was given.
\<close>

theorem token_rejected_state_unchanged:
  assumes "r_auth_token rq = Some token"
    and "verify_auth_token e d token = None"
  shows "create_new_query e d rq = Inr (token_expiration_json_response, d) \<and>
         delete_query e d rq = Inr (token_expiration_json_response, d) \<and>
         create_query_result e cfg d rq = Inr (token_expiration_json_response, d) \<and>
         get_user_query e d rq = Inr (token_expiration_json_response, d) \<and>
         add_sponsor_location e cfg d rq = Inr (token_expiration_json_response, d) \<and>
         delete_location e d rq = Inr (token_expiration_json_response, d)"
  using assms
  by (simp add: create_new_query_def delete_query_def create_query_result_def
      get_user_query_def add_sponsor_location_def delete_location_def)

theorem token_rejected_state_unchanged_witness:
  "create_new_query demo_env demo_db (demo_request ''mallory'' (Val 7))
     = Inr (token_expiration_json_response, demo_db) \<and>
   delete_query demo_env demo_db (demo_request ''mallory'' (Val 7))
     = Inr (token_expiration_json_response, demo_db) \<and>
   create_query_result demo_env demo_config demo_db (demo_request ''mallory'' (Val 7))
     = Inr (token_expiration_json_response, demo_db) \<and>
   get_user_query demo_env demo_db (demo_request ''mallory'' (Val 7))
     = Inr (token_expiration_json_response, demo_db) \<and>
   add_sponsor_location demo_env demo_config demo_db (demo_request ''mallory'' (Val 7))
     = Inr (token_expiration_json_response, demo_db) \<and>
   delete_location demo_env demo_db (demo_request ''mallory'' (Val 7))
     = Inr (token_expiration_json_response, demo_db)"
  by (rule token_rejected_state_unchanged [OF demo_request_token verify_mallory])

section \<open>Listing queries\<close>

text \<open>
  C9. For two requests whose tokens both verify, get-queries gives the same answer. Its
  \<^verbatim>\<open>queries\<close> list has one entry per query of the database, in table order and whoever
  owns it, and each entry gives that query's id, origin (\<^verbatim>\<open>start\<close>), destination
  (\<^verbatim>\<open>end\<close>) and threshold (\<^verbatim>\<open>distance\<close>). The requesting user does not occur in the answer.
\<close>

theorem get_user_query_lists_every_query:
  assumes "r_auth_token rq1 = Some token1"
    and "verify_auth_token e d token1 = Some usr1"
    and "r_auth_token rq2 = Some token2"
    and "verify_auth_token e d token2 = Some usr2"
  shows "get_user_query e d rq1 = get_user_query e d rq2 \<and>
         get_user_query e d rq1 =
           Inr (Dumps (JObj [(''status'', JInt 0),
                             (''message'', JStr ''Request fulfilled successfully''),
                             (''queries'',
                              JList (map (\<lambda>x. JObj [(''id'', JInt (q_id x)),
                                                    (''start'', JStr (entry_o x)),
                                                    (''end'', JStr (entry_d x)),
                                                    (''distance'', JFloat (fd x))])
                                       (queries d)))]), d)"
  using assms by (simp add: get_user_query_def query_json_def)

theorem get_user_query_lists_every_query_witness:
  "verify_auth_token demo_env demo_db ''alice-token'' = Some alice \<and>
   verify_auth_token demo_env demo_db ''bob-token'' = Some bob \<and>
   u_id alice \<noteq> u_id bob \<and> q_user_id bobs_query = u_id bob \<and>
   get_user_query demo_env demo_db (demo_request ''alice-token'' Absent)
     = get_user_query demo_env demo_db (demo_request ''bob-token'' Absent) \<and>
   get_user_query demo_env demo_db (demo_request ''alice-token'' Absent)
     = Inr (Dumps (JObj [(''status'', JInt 0),
                         (''message'', JStr ''Request fulfilled successfully''),
                         (''queries'',
                          JList [JObj [(''id'', JInt 7), (''start'', JStr ''Miami''),
                                       (''end'', JStr ''Orlando''),
                                       (''distance'', JFloat 50)]])]), demo_db)"
proof -
  note th = get_user_query_lists_every_query
              [OF demo_request_token [of "''alice-token''" Absent] verify_alice
                  demo_request_token [of "''bob-token''" Absent] verify_bob]
  have same: "get_user_query demo_env demo_db (demo_request ''alice-token'' Absent)
                = get_user_query demo_env demo_db (demo_request ''bob-token'' Absent)"
    using th by blast
  have rows: "map (\<lambda>x. JObj [(''id'', JInt (q_id x)), (''start'', JStr (entry_o x)),
                             (''end'', JStr (entry_d x)), (''distance'', JFloat (fd x))])
                (queries demo_db)
              = [JObj [(''id'', JInt 7), (''start'', JStr ''Miami''),
                       (''end'', JStr ''Orlando''), (''distance'', JFloat (50 :: rat))]]"
    by (simp add: demo_db_def bobs_query_def)
  have listed: "get_user_query demo_env demo_db (demo_request ''alice-token'' Absent)
     = Inr (Dumps (JObj [(''status'', JInt 0),
                         (''message'', JStr ''Request fulfilled successfully''),
                         (''queries'',
                          JList [JObj [(''id'', JInt 7), (''start'', JStr ''Miami''),
                                       (''end'', JStr ''Orlando''),
                                       (''distance'', JFloat 50)]])]), demo_db)"
    using th unfolding rows by blast
  have owners: "u_id alice \<noteq> u_id bob" "q_user_id bobs_query = u_id bob"
    by (simp_all add: alice_def bob_def bobs_query_def)
  from same listed owners verify_alice verify_bob show ?thesis
    by blast
qed

section \<open>Computing and storing deviations\<close>

lemma first_filter_SomeD: "first (filter P xs) = Some x \<Longrightarrow> x \<in> set xs \<and> P x"
  unfolding first_def
  by (auto split: list.splits simp: filter_eq_Cons_iff)

lemma add_location_fields:
  "users (add_location d l) = users d" "queries (add_location d l) = queries d"
  "tags (add_location d l) = tags d"
  by (simp_all add: add_location_def)

lemma store_deviations_rows:
  "\<exists>new. store_deviations qry d deviations = d\<lparr>locations := locations d @ new\<rparr> \<and>
         length new = length deviations \<and>
         list_all (\<lambda>l. l_user_id l = q_user_id qry \<and> is_sp l = False \<and>
                        l_query_id l = (if q_id qry \<noteq> - 1 then Some (q_id qry) else None)) new"
proof (induction deviations arbitrary: d)
  case Nil
  show ?case by (simp add: store_deviations_def)
next
  case (Cons x xs)
  let ?row = "Location (d_name x) (d_lat x) (d_lng x) (q_user_id qry) (q_id qry) False"
  let ?d1 = "add_location d ?row"
  from Cons.IH [of ?d1] obtain new where
    st: "store_deviations qry ?d1 xs = ?d1\<lparr>locations := locations ?d1 @ new\<rparr>"
    and len: "length new = length xs"
    and all: "list_all (\<lambda>l. l_user_id l = q_user_id qry \<and> is_sp l = False \<and>
                        l_query_id l = (if q_id qry \<noteq> - 1 then Some (q_id qry) else None)) new"
    by blast
  have unfold: "store_deviations qry d (x # xs) = store_deviations qry ?d1 xs"
    by (simp add: store_deviations_def)
  let ?stored = "?row\<lparr>l_id := Some (next_id (map l_id (locations d)))\<rparr>"
  have "store_deviations qry d (x # xs) = d\<lparr>locations := locations d @ (?stored # new)\<rparr>"
    unfolding unfold st by (simp add: add_location_def)
  moreover have "length (?stored # new) = length (x # xs)"
    using len by simp
  moreover have "list_all (\<lambda>l. l_user_id l = q_user_id qry \<and> is_sp l = False \<and>
                        l_query_id l = (if q_id qry \<noteq> - 1 then Some (q_id qry) else None)) (?stored # new)"
    using all by (simp add: Location_def)
  ultimately show ?case by blast
qed

lemma compute_query_result_rows:
  assumes "compute_query_result e cfg d query_id = Inr (resp, d')"
  shows "\<exists>qry new. first (filter (\<lambda>q. q_id q = int query_id) (queries d)) = Some qry \<and>
           d' = d\<lparr>locations := locations d @ new\<rparr> \<and>
           list_all (\<lambda>l. l_user_id l = q_user_id qry \<and> is_sp l = False \<and>
                          l_query_id l = Some (int query_id)) new"
proof -
  from assms obtain qry deviations where
    q: "first (filter (\<lambda>q. q_id q = int query_id) (queries d)) = Some qry"
    and d': "d' = store_deviations qry d deviations"
    by (auto simp: compute_query_result_def split: option.splits sum.splits)
  from first_filter_SomeD [OF q] have "q_id qry = int query_id"
    by simp
  then have "q_id qry \<noteq> - 1"
    by simp
  with store_deviations_rows [of qry d deviations] d' q \<open>q_id qry = int query_id\<close> show ?thesis
    by auto
qed

lemma add_sponsor_location_rows:
  assumes "add_sponsor_location e cfg d rq = Inr (resp, d')"
  shows "d' = d \<or>
         (\<exists>token usr l. r_auth_token rq = Some token \<and> verify_auth_token e d token = Some usr \<and>
            d' = d\<lparr>locations := locations d @ [l]\<rparr> \<and>
            is_sp l = True \<and> l_query_id l = None \<and> l_user_id l = u_id usr)"
  using assms
  by (auto simp: add_sponsor_location_def add_location_def Location_def
           split: option.splits sum.splits list.splits if_splits)

lemma inv_append:
  assumes "stopover_owner_inv d"
    and "list_all (\<lambda>l. list_all (\<lambda>q. l_query_id l = Some (q_id q) \<longrightarrow> l_user_id l = q_user_id q)
                       (queries d)) new"
  shows "stopover_owner_inv (d\<lparr>locations := locations d @ new\<rparr>)"
  using assms by (simp add: stopover_owner_inv_def)

lemma same_id_same_query:
  assumes "distinct (map q_id qs)" "q \<in> set qs" "q' \<in> set qs" "q_id q = q_id q'"
  shows "q = q'"
  using assms by (meson distinct_map inj_on_eq_iff)


text \<open>
  C8. With a directions answer whose first leg has no steps, compute deviations
  hands the leg's single polyline to \<^verbatim>\<open>pathDeviationPoints\<close> as a one-element list;
  with steps, it hands over the polyline of every step, in step order. The finder is a
  parameter, so the equations show the argument it is called with.
\<close>

theorem compute_passes_polylines:
  assumes "first (filter (\<lambda>q. q_id q = int query_id) (queries d)) = Some qry"
    and "requests_post_directions e (directions_url cfg qry) = Inr direction_result"
    and "routes direction_result = r # rs"
    and "legs r = base_leg # ls"
    and "keywords = map t_keyword (filter (\<lambda>t. t_query_id t = q_id qry) (tags d))"
  shows "(steps base_leg = None \<and> leg_polyline_points base_leg = Some pts \<longrightarrow>
            polylines_of base_leg = Inr [pts] \<and>
            compute_query_result e cfg d query_id =
              (case pathDeviationPoints e [pts] (fd qry) keywords [] of
                 Inl err \<Rightarrow> Inl err
               | Inr deviations \<Rightarrow>
                  Inr (Dumps (JObj [(''status'', JInt 0),
                                    (''message'', JStr ''Basic Route Created Successfully''),
                                    (''deviations'', JList (map deviation_json deviations))]),
                       store_deviations qry d deviations))) \<and>
         (steps base_leg = Some sts \<longrightarrow>
            polylines_of base_leg = Inr (map polyline_points sts) \<and>
            compute_query_result e cfg d query_id =
              (case pathDeviationPoints e (map polyline_points sts) (fd qry) keywords [] of
                 Inl err \<Rightarrow> Inl err
               | Inr deviations \<Rightarrow>
                  Inr (Dumps (JObj [(''status'', JInt 0),
                                    (''message'', JStr ''Basic Route Created Successfully''),
                                    (''deviations'', JList (map deviation_json deviations))]),
                       store_deviations qry d deviations)))"
  using assms
  by (simp add: compute_query_result_def base_leg_of_def polylines_of_def)

theorem compute_passes_polylines_witness:
  "map polyline_points demo_steps = [''ab'', ''cd'', ''ef''] \<and>
   compute_query_result demo_env demo_config demo_db 7 =
     Inr (Dumps (JObj [(''status'', JInt 0), (''message'', JStr ''Basic Route Created Successfully''),
            (''deviations'',
             JList (map deviation_json
                      (map (\<lambda>p. \<lparr>d_name = p, d_lat = 27, d_lng = - 81\<rparr>) [''ab'', ''cd'', ''ef''])))]),
          store_deviations bobs_query demo_db
            (map (\<lambda>p. \<lparr>d_name = p, d_lat = 27, d_lng = - 81\<rparr>) [''ab'', ''cd'', ''ef''])) \<and>
   compute_query_result (demo_env\<lparr>requests_post_directions := \<lambda>url. Inr demo_single_leg\<rparr>)
       demo_config demo_db 7 =
     Inr (Dumps (JObj [(''status'', JInt 0), (''message'', JStr ''Basic Route Created Successfully''),
            (''deviations'',
             JList (map deviation_json
                      (map (\<lambda>p. \<lparr>d_name = p, d_lat = 27, d_lng = - 81\<rparr>) [''abcdef''])))]),
          store_deviations bobs_query demo_db
            (map (\<lambda>p. \<lparr>d_name = p, d_lat = 27, d_lng = - 81\<rparr>) [''abcdef'']))"
proof -
  let ?leg = "\<lparr>steps = Some demo_steps, leg_polyline_points = None\<rparr>"
  let ?single = "\<lparr>steps = None, leg_polyline_points = Some ''abcdef''\<rparr>"
  let ?e = "demo_env\<lparr>requests_post_directions := \<lambda>url. Inr demo_single_leg\<rparr>"
  have pts: "map polyline_points demo_steps = [''ab'', ''cd'', ''ef'']"
    by (simp add: demo_steps_def)
  have "compute_query_result demo_env demo_config demo_db 7 =
          (case pathDeviationPoints demo_env (map polyline_points demo_steps) (fd bobs_query)
                  (map t_keyword (filter (\<lambda>t. t_query_id t = q_id bobs_query) (tags demo_db))) [] of
             Inl err \<Rightarrow> Inl err
           | Inr deviations \<Rightarrow>
              Inr (Dumps (JObj [(''status'', JInt 0),
                                (''message'', JStr ''Basic Route Created Successfully''),
                                (''deviations'', JList (map deviation_json deviations))]),
                   store_deviations bobs_query demo_db deviations))"
    using compute_passes_polylines
            [where e = demo_env and cfg = demo_config and d = demo_db and query_id = 7
               and qry = bobs_query and direction_result = demo_directions
               and r = "\<lparr>legs = [?leg]\<rparr>" and rs = "[]" and base_leg = ?leg and ls = "[]"
               and sts = demo_steps, OF first_query_7_nat _ _ _ refl]
    by (simp add: demo_env_def demo_directions_def)
  then have a: "compute_query_result demo_env demo_config demo_db 7 =
     Inr (Dumps (JObj [(''status'', JInt 0), (''message'', JStr ''Basic Route Created Successfully''),
            (''deviations'',
             JList (map deviation_json
                      (map (\<lambda>p. \<lparr>d_name = p, d_lat = 27, d_lng = - 81\<rparr>) [''ab'', ''cd'', ''ef''])))]),
          store_deviations bobs_query demo_db
            (map (\<lambda>p. \<lparr>d_name = p, d_lat = 27, d_lng = - 81\<rparr>) [''ab'', ''cd'', ''ef'']))"
    by (simp add: pts) (simp add: demo_env_def)
  have "compute_query_result ?e demo_config demo_db 7 =
          (case pathDeviationPoints ?e [''abcdef''] (fd bobs_query)
                  (map t_keyword (filter (\<lambda>t. t_query_id t = q_id bobs_query) (tags demo_db))) [] of
             Inl err \<Rightarrow> Inl err
           | Inr deviations \<Rightarrow>
              Inr (Dumps (JObj [(''status'', JInt 0),
                                (''message'', JStr ''Basic Route Created Successfully''),
                                (''deviations'', JList (map deviation_json deviations))]),
                   store_deviations bobs_query demo_db deviations))"
    using compute_passes_polylines
            [where e = ?e and cfg = demo_config and d = demo_db and query_id = 7
               and qry = bobs_query and direction_result = demo_single_leg
               and r = "\<lparr>legs = [?single]\<rparr>" and rs = "[]" and base_leg = ?single and ls = "[]"
               and pts = "''abcdef''", OF first_query_7_nat _ _ _ refl]
    by (simp add: demo_single_leg_def)
  then have b: "compute_query_result ?e demo_config demo_db 7 =
     Inr (Dumps (JObj [(''status'', JInt 0), (''message'', JStr ''Basic Route Created Successfully''),
            (''deviations'',
             JList (map deviation_json
                      (map (\<lambda>p. \<lparr>d_name = p, d_lat = 27, d_lng = - 81\<rparr>) [''abcdef''])))]),
          store_deviations bobs_query demo_db
            (map (\<lambda>p. \<lparr>d_name = p, d_lat = 27, d_lng = - 81\<rparr>) [''abcdef'']))"
    by (simp add: demo_env_def)
  from pts a b show ?thesis
    by simp
qed

text \<open>
  C6. Every row that compute deviations stores carries the user and the id of the query
  and is not a sponsor row; a sponsor location is stored as a sponsor row of the
  requester with no query reference. Both operations keep the invariant that a row
  referring to a query has that query's owner (query ids being a primary key).
\<close>

theorem created_rows_carry_owner:
  "(\<forall>resp d'. compute_query_result e cfg d query_id = Inr (resp, d') \<longrightarrow>
      (\<exists>qry new. first (filter (\<lambda>q. q_id q = int query_id) (queries d)) = Some qry \<and>
         d' = d\<lparr>locations := locations d @ new\<rparr> \<and>
         list_all (\<lambda>l. l_user_id l = q_user_id qry \<and> l_query_id l = Some (q_id qry) \<and>
                        is_sp l = False) new) \<and>
      (distinct (map q_id (queries d)) \<and> stopover_owner_inv d \<longrightarrow> stopover_owner_inv d')) \<and>
   (\<forall>resp d'. add_sponsor_location e cfg d rq = Inr (resp, d') \<longrightarrow>
      (d' = d \<or>
       (\<exists>token usr l. r_auth_token rq = Some token \<and> verify_auth_token e d token = Some usr \<and>
          d' = d\<lparr>locations := locations d @ [l]\<rparr> \<and>
          is_sp l = True \<and> l_query_id l = None \<and> l_user_id l = u_id usr)) \<and>
      (stopover_owner_inv d \<longrightarrow> stopover_owner_inv d'))"
proof (intro conjI allI impI)
  fix resp d'
  assume run: "compute_query_result e cfg d query_id = Inr (resp, d')"
  from compute_query_result_rows [OF run] obtain qry new where
    q: "first (filter (\<lambda>q. q_id q = int query_id) (queries d)) = Some qry"
    and d': "d' = d\<lparr>locations := locations d @ new\<rparr>"
    and rows: "list_all (\<lambda>l. l_user_id l = q_user_id qry \<and> is_sp l = False \<and>
                          l_query_id l = Some (int query_id)) new"
    by blast
  from first_filter_SomeD [OF q] have mem: "qry \<in> set (queries d)" and qid: "q_id qry = int query_id"
    by simp_all
  from rows qid have rows': "list_all (\<lambda>l. l_user_id l = q_user_id qry \<and>
        l_query_id l = Some (q_id qry) \<and> is_sp l = False) new"
    by (simp add: list_all_iff)
  with q d' show "\<exists>qry new. first (filter (\<lambda>q. q_id q = int query_id) (queries d)) = Some qry \<and>
         d' = d\<lparr>locations := locations d @ new\<rparr> \<and>
         list_all (\<lambda>l. l_user_id l = q_user_id qry \<and> l_query_id l = Some (q_id qry) \<and>
                        is_sp l = False) new"
    by blast
  assume "distinct (map q_id (queries d)) \<and> stopover_owner_inv d"
  then have dist: "distinct (map q_id (queries d))" and inv: "stopover_owner_inv d"
    by simp_all
  have "list_all (\<lambda>l. list_all (\<lambda>q. l_query_id l = Some (q_id q) \<longrightarrow> l_user_id l = q_user_id q)
                       (queries d)) new"
    unfolding list_all_iff
  proof (intro ballI impI)
    fix l q
    assume l: "l \<in> set new" and qm: "q \<in> set (queries d)" and ref: "l_query_id l = Some (q_id q)"
    from rows' l have "l_user_id l = q_user_id qry" "l_query_id l = Some (q_id qry)"
      by (simp_all add: list_all_iff)
    with ref have "q_id q = q_id qry"
      by simp
    with same_id_same_query [OF dist qm mem] have "q = qry"
      by simp
    with \<open>l_user_id l = q_user_id qry\<close> show "l_user_id l = q_user_id q"
      by simp
  qed
  from inv_append [OF inv this] d' show "stopover_owner_inv d'"
    by simp
next
  fix resp d'
  assume run: "add_sponsor_location e cfg d rq = Inr (resp, d')"
  from add_sponsor_location_rows [OF run]
  show "d' = d \<or>
       (\<exists>token usr l. r_auth_token rq = Some token \<and> verify_auth_token e d token = Some usr \<and>
          d' = d\<lparr>locations := locations d @ [l]\<rparr> \<and>
          is_sp l = True \<and> l_query_id l = None \<and> l_user_id l = u_id usr)" .
  assume inv: "stopover_owner_inv d"
  from add_sponsor_location_rows [OF run] show "stopover_owner_inv d'"
  proof
    assume "d' = d"
    with inv show ?thesis by simp
  next
    assume "\<exists>token usr l. r_auth_token rq = Some token \<and> verify_auth_token e d token = Some usr \<and>
          d' = d\<lparr>locations := locations d @ [l]\<rparr> \<and>
          is_sp l = True \<and> l_query_id l = None \<and> l_user_id l = u_id usr"
    then obtain l where d': "d' = d\<lparr>locations := locations d @ [l]\<rparr>" and "l_query_id l = None"
      by blast
    then have "list_all (\<lambda>l. list_all (\<lambda>q. l_query_id l = Some (q_id q) \<longrightarrow> l_user_id l = q_user_id q)
                       (queries d)) [l]"
      by (simp add: list_all_iff)
    from inv_append [OF inv this] d' show ?thesis
      by simp
  qed
qed


lemma demo_compute_run:
  "compute_query_result demo_env demo_config demo_db 7 =
     Inr (Dumps (JObj [(''status'', JInt 0), (''message'', JStr ''Basic Route Created Successfully''),
            (''deviations'', JList [JObj [(''name'', JStr ''ab''), (''lat'', JFloat 27), (''lng'', JFloat (- 81))],
                                    JObj [(''name'', JStr ''cd''), (''lat'', JFloat 27), (''lng'', JFloat (- 81))],
                                    JObj [(''name'', JStr ''ef''), (''lat'', JFloat 27), (''lng'', JFloat (- 81))]])]),
          demo_db_computed)"
  by code_simp

lemma demo_sponsor_run:
  "add_sponsor_location demo_env demo_config demo_db (demo_request ''bob-token'' Absent) =
     Inr (status_message 0 ''Sponsor Location Added Successfully'', demo_db_sponsored)"
  by code_simp

lemma demo_inv: "distinct (map q_id (queries demo_db)) \<and> stopover_owner_inv demo_db"
  by code_simp

theorem created_rows_carry_owner_witness:
  "compute_query_result demo_env demo_config demo_db 7 =
     Inr (Dumps (JObj [(''status'', JInt 0), (''message'', JStr ''Basic Route Created Successfully''),
            (''deviations'', JList [JObj [(''name'', JStr ''ab''), (''lat'', JFloat 27), (''lng'', JFloat (- 81))],
                                    JObj [(''name'', JStr ''cd''), (''lat'', JFloat 27), (''lng'', JFloat (- 81))],
                                    JObj [(''name'', JStr ''ef''), (''lat'', JFloat 27), (''lng'', JFloat (- 81))]])]),
          demo_db_computed) \<and>
   (\<exists>new. demo_db_computed = demo_db\<lparr>locations := locations demo_db @ new\<rparr> \<and>
      list_all (\<lambda>l. l_user_id l = q_user_id bobs_query \<and> l_query_id l = Some (q_id bobs_query) \<and>
                     is_sp l = False) new) \<and>
   stopover_owner_inv demo_db_computed \<and>
   add_sponsor_location demo_env demo_config demo_db (demo_request ''bob-token'' Absent) =
     Inr (status_message 0 ''Sponsor Location Added Successfully'', demo_db_sponsored) \<and>
   demo_db_sponsored \<noteq> demo_db \<and>
   (\<exists>l. demo_db_sponsored = demo_db\<lparr>locations := locations demo_db @ [l]\<rparr> \<and>
      is_sp l = True \<and> l_query_id l = None \<and> l_user_id l = u_id bob) \<and>
   stopover_owner_inv demo_db_sponsored"
proof -
  note th = created_rows_carry_owner
              [of demo_env demo_config demo_db 7 "demo_request ''bob-token'' Absent"]
  have ne: "demo_db_sponsored \<noteq> demo_db"
    by (simp add: demo_db_sponsored_def demo_db_def)
  have q7: "first (filter (\<lambda>q. q_id q = int 7) (queries demo_db)) = Some bobs_query"
    by (simp add: first_query_7)
  from th demo_compute_run q7 have a:
    "\<exists>new. demo_db_computed = demo_db\<lparr>locations := locations demo_db @ new\<rparr> \<and>
      list_all (\<lambda>l. l_user_id l = q_user_id bobs_query \<and> l_query_id l = Some (q_id bobs_query) \<and>
                     is_sp l = False) new"
    by auto
  from th demo_compute_run demo_inv have b: "stopover_owner_inv demo_db_computed"
    by blast
  from th demo_sponsor_run ne verify_bob demo_request_token [of "''bob-token''" Absent]
  have c: "\<exists>l. demo_db_sponsored = demo_db\<lparr>locations := locations demo_db @ [l]\<rparr> \<and>
      is_sp l = True \<and> l_query_id l = None \<and> l_user_id l = u_id bob"
    by auto
  from th demo_sponsor_run demo_inv have d: "stopover_owner_inv demo_db_sponsored"
    by blast
  from a b c d ne demo_compute_run demo_sponsor_run show ?thesis
    by blast
qed

section \<open>Fetching results\<close>

lemma remainder_minutes: "(t - (t div 3600) * 3600) div 60 = (t mod 3600) div (60::int)"
  by (simp add: minus_div_mult_eq_mod)

text \<open>
  C2. In the directions request of get results, the parameter \<^verbatim>\<open>waypoints\<close> is absent
  when the deviation list fetched for the query is empty, and otherwise is
  \<^verbatim>\<open>via:enc:\<close>, the polyline encoding of the (lat, lng) pairs in list order, and a colon.
\<close>

theorem result_request_waypoints:
  assumes "r_auth_token rq = Some token"
    and "verify_auth_token e d token = Some usr"
    and "requested_query d usr rq = Some qry"
    and "get_deviation_points_impl e d (q_id qry) = Inr (deviations, d')"
  shows "create_query_result e cfg d rq =
           (case requests_get_directions e (MAPS_DIRECTION_BASE cfg)
                   (param_dict_of e cfg qry deviations) of
              Inl err \<Rightarrow> Inl err
            | Inr distance_request \<Rightarrow>
               (case result_steps distance_request of
                  Inl err \<Rightarrow> Inl err
                | Inr sts \<Rightarrow> Inr (Dumps (result_json (flt e) qry deviations sts), d'))) \<and>
         (deviations = [] \<longrightarrow>
            ''waypoints'' \<notin> fst ` set (param_dict_of e cfg qry deviations) \<and>
            map_of (param_dict_of e cfg qry deviations) ''waypoints'' = None) \<and>
         (deviations \<noteq> [] \<longrightarrow>
            map_of (param_dict_of e cfg qry deviations) ''waypoints'' =
              Some (''via:enc:'' @ polyline_encode e (map (\<lambda>x. (d_lat x, d_lng x)) deviations) @ '':''))"
  using assms by (simp add: create_query_result_def param_dict_of_def)

theorem result_request_waypoints_witness:
  "get_deviation_points_impl demo_env demo_db_fresh (q_id bobs_query) = Inr ([], demo_db_fresh) \<and>
   param_dict_of demo_env demo_config bobs_query [] =
     [(''origin'', ''Miami''), (''destination'', ''Orlando''), (''key'', ''k'')] \<and>
   map_of (param_dict_of demo_env demo_config bobs_query []) ''waypoints'' = None \<and>
   get_deviation_points_impl demo_env demo_db (q_id bobs_query) =
     Inr ([\<lparr>d_name = ''Cafe Sol'', d_lat = 26, d_lng = - 80\<rparr>], demo_db) \<and>
   map_of (param_dict_of demo_env demo_config bobs_query
             [\<lparr>d_name = ''Cafe Sol'', d_lat = 26, d_lng = - 80\<rparr>]) ''waypoints''
     = Some (''via:enc:'' @ polyline_encode demo_env [(26, - 80)] @ '':'') \<and>
   polyline_encode demo_env [(26, - 80)] = ''p''"
proof -
  note fresh = result_request_waypoints
    [OF demo_request_token verify_bob_fresh requested_query_fresh stored_deviations_fresh,
     of demo_config]
  note stored = result_request_waypoints
    [OF demo_request_token verify_bob requested_query_bob stored_deviations_demo, of demo_config]
  have a: "map_of (param_dict_of demo_env demo_config bobs_query []) ''waypoints'' = None"
    using fresh by simp
  have b: "map_of (param_dict_of demo_env demo_config bobs_query
             [\<lparr>d_name = ''Cafe Sol'', d_lat = 26, d_lng = - 80\<rparr>]) ''waypoints''
     = Some (''via:enc:'' @ polyline_encode demo_env [(26, - 80)] @ '':'')"
    using stored by simp
  have c: "param_dict_of demo_env demo_config bobs_query [] =
     [(''origin'', ''Miami''), (''destination'', ''Orlando''), (''key'', ''k'')]"
    by (simp add: param_dict_of_def bobs_query_def demo_config_def)
  have d: "polyline_encode demo_env [(26, - 80)] = ''p''"
    by (simp add: demo_env_def)
  from a b c d stored_deviations_fresh stored_deviations_demo show ?thesis
    by simp
qed

text \<open>
  C3. The answer of get results reports, for the steps of the first leg of the first
  route, the summed duration as whole hours and remaining minutes
  (\<open>total div 3600\<close> and \<open>(total mod 3600) div 60\<close>) and the summed distance times
  0.621371 divided by 1000 and rounded to two digits, in float arithmetic.
\<close>

theorem result_totals:
  assumes "r_auth_token rq = Some token"
    and "verify_auth_token e d token = Some usr"
    and "requested_query d usr rq = Some qry"
    and "get_deviation_points_impl e d (q_id qry) = Inr (deviations, d')"
    and "requests_get_directions e (MAPS_DIRECTION_BASE cfg) (param_dict_of e cfg qry deviations)
           = Inr distance_request"
    and "routes distance_request = r # rs"
    and "legs r = l # ls"
    and "steps l = Some sts"
    and "total_seconds = sum_list (map duration_value sts)"
    and "total_meters = sum_list (map distance_value sts)"
  shows "create_query_result e cfg d rq =
           Inr (Dumps (JObj
                  [(''status'', JInt 0), (''message'', JStr ''Basic Route Created Successfully''),
                   (''start'', JStr (entry_o qry)), (''end'', JStr (entry_d qry)),
                   (''deviations'', JList (map deviation_json deviations)),
                   (''time'', JStr (str_int (total_seconds div 3600) @ '':'' @
                                    str_int ((total_seconds mod 3600) div 60))),
                   (''distance'',
                    JStr (float_str (flt e)
                            (round_ndigits (flt e)
                               (ftruediv (flt e)
                                  (fmul (flt e) (float_of_int (flt e) total_meters) (lit_0_621371 (flt e)))
                                  (float_of_int (flt e) 1000)) 2)))]), d')"
  using assms
  by (simp add: create_query_result_def result_steps_def base_leg_of_def result_json_def
      time_str_def distance_str_def remainder_minutes Let_def)

theorem result_totals_witness:
  "sum_list (map duration_value demo_steps) = 3000 \<and>
   sum_list (map distance_value demo_steps) = 6000 \<and>
   create_query_result demo_env demo_config demo_db (demo_request ''bob-token'' (Val 7)) =
     Inr (Dumps (demo_result_json [cafe_sol_json]), demo_db)"
proof -
  have secs: "sum_list (map duration_value demo_steps) = 3000"
    and mets: "sum_list (map distance_value demo_steps) = 6000"
    by (simp_all add: demo_steps_def)
  note th = result_totals
    [where e = demo_env and cfg = demo_config and d = demo_db
       and rq = "demo_request ''bob-token'' (Val 7)"
       and r = "\<lparr>legs = [\<lparr>steps = Some demo_steps, leg_polyline_points = None\<rparr>]\<rparr>"
       and rs = "[]" and l = "\<lparr>steps = Some demo_steps, leg_polyline_points = None\<rparr>"
       and ls = "[]" and sts = demo_steps,
     OF demo_request_token verify_bob requested_query_bob stored_deviations_demo
        demo_get_directions _ _ _ refl refl]
  have "create_query_result demo_env demo_config demo_db (demo_request ''bob-token'' (Val 7)) =
     Inr (Dumps (demo_result_json [cafe_sol_json]), demo_db)"
    using th
    by (simp add: demo_directions_def secs mets demo_miles str_int_0 str_int_50
        demo_result_json_def cafe_sol_json_def deviation_json_def bobs_query_def)
  with secs mets show ?thesis
    by simp
qed

text \<open>
  C1 does not hold of the code. Get results asked by alice for the id of bob's query
  answers with status 0 and bob's route, stopovers and totals, where the specification
  (and the handler's own docstring) wants an error for a query of another user; and compute
  deviations for an id that no row has ends in an unhandled \<^verbatim>\<open>AttributeError\<close> instead of
  an answer.
\<close>

theorem get_results_serves_other_users_query:
  "verify_auth_token demo_env demo_db ''alice-token'' = Some alice \<and>
   first (filter (\<lambda>q. q_id q = 7) (queries demo_db)) = Some bobs_query \<and>
   u_id alice \<noteq> q_user_id bobs_query \<and>
   create_query_result demo_env demo_config demo_db (demo_request ''alice-token'' (Val 7)) =
     Inr (Dumps (demo_result_json [cafe_sol_json]), demo_db) \<and>
   first (filter (\<lambda>q. q_id q = 8) (queries demo_db)) = None \<and>
   compute_query_result demo_env demo_config demo_db 8 = Inl AttributeError"
  by code_simp


lemma response_field_canned:
  "response_field k token_expiration_json_response = None"
  "response_field k insufficient_rights_json_response = None"
  by (simp_all add: response_field_def)

lemma status_message_fields:
  "response_field ''deviations'' (status_message s m) = None"
  by (simp add: response_field_def status_message_def)

lemma result_json_deviations:
  "response_field ''deviations'' (Dumps (result_json fo qry deviations sts))
     = Some (JList (map deviation_json deviations))"
  by (simp add: response_field_def result_json_def Let_def)

lemma result_json_status:
  "response_field ''status'' (Dumps (result_json fo qry deviations sts)) = Some (JInt 0)"
  by (simp add: response_field_def result_json_def Let_def)

lemma verify_auth_token_loads:
  "loads e' = loads e \<Longrightarrow> verify_auth_token e' d token = verify_auth_token e d token"
  by (simp add: verify_auth_token_def)

lemma foldl_latest_mem:
  "foldl (\<lambda>b c. if q_id b < q_id c then c else b) q qs \<in> set (q # qs)"
  by (induction qs arbitrary: q) auto

lemma requested_query_mem:
  assumes "requested_query d usr rq = Some qry"
  shows "qry \<in> set (queries d)"
proof (cases "r_query_id rq")
  case (Val query_id)
  with assms have "first (filter (\<lambda>q. q_id q = query_id) (queries d)) = Some qry"
    by (simp add: requested_query_def)
  from first_filter_SomeD [OF this] show ?thesis
    by simp
next
  case Absent
  with assms obtain q qs where f: "filter (\<lambda>q. q_user_id q = u_id usr) (queries d) = q # qs"
    and r: "qry = foldl (\<lambda>b c. if q_id b < q_id c then c else b) q qs"
    by (auto simp: requested_query_def latest_query_of_def split: list.splits)
  from foldl_latest_mem [of q qs] r f have "qry \<in> set (filter (\<lambda>q. q_user_id q = u_id usr) (queries d))"
    by simp
  then show ?thesis
    by simp
next
  case Null
  with assms obtain q qs where f: "filter (\<lambda>q. q_user_id q = u_id usr) (queries d) = q # qs"
    and r: "qry = foldl (\<lambda>b c. if q_id b < q_id c then c else b) q qs"
    by (auto simp: requested_query_def latest_query_of_def split: list.splits)
  from foldl_latest_mem [of q qs] r f have "qry \<in> set (filter (\<lambda>q. q_user_id q = u_id usr) (queries d))"
    by simp
  then show ?thesis
    by simp
qed

lemma create_query_result_read:
  assumes "get_deviation_points_impl e = get_deviation_points"
    and "create_query_result e cfg d rq = Inr (resp, d')"
  shows "d' = d \<and>
         response_field ''deviations'' resp =
           (case r_auth_token rq of None \<Rightarrow> None
            | Some token \<Rightarrow>
               (case verify_auth_token e d token of None \<Rightarrow> None
                | Some usr \<Rightarrow>
                   (case requested_query d usr rq of None \<Rightarrow> None
                    | Some qry \<Rightarrow>
                       Some (JList (map deviation_json
                         (map (\<lambda>l. \<lparr>d_name = l_keyword l, d_lat = lat l, d_lng = lng l\<rparr>)
                            (filter (\<lambda>l. l_query_id l = Some (q_id qry)) (locations d))))))))"
  using assms
  by (auto simp: create_query_result_def get_deviation_points_def status_message_fields
        result_json_deviations response_field_canned
      split: option.splits sum.splits)

text \<open>
  C4. With the fetch of stored deviations as the specification describes it, get results
  leaves the database as it found it, so a second call sees the same rows and their
  number is unchanged; both calls report the same deviations, which are the stored rows
  of the requested query; and the answer does not depend on the Deviation Point Finder or
  on the place search, which the handler never calls.
\<close>

theorem get_results_is_a_pure_read:
  assumes "get_deviation_points_impl e = get_deviation_points"
    and "get_deviation_points_impl e' = get_deviation_points"
    and "loads e' = loads e"
    and "create_query_result e cfg d rq = Inr (resp1, d1)"
    and "create_query_result e' cfg' d1 rq = Inr (resp2, d2)"
  shows "d1 = d \<and> d2 = d \<and> length (locations d2) = length (locations d) \<and>
         response_field ''deviations'' resp1 = response_field ''deviations'' resp2 \<and>
         (response_field ''status'' resp1 = Some (JInt 0) \<longrightarrow>
            (\<exists>qry \<in> set (queries d).
               response_field ''deviations'' resp1 =
                 Some (JList (map deviation_json
                   (map (\<lambda>l. \<lparr>d_name = l_keyword l, d_lat = lat l, d_lng = lng l\<rparr>)
                      (filter (\<lambda>l. l_query_id l = Some (q_id qry)) (locations d))))))) \<and>
         create_query_result
             (e\<lparr>pathDeviationPoints := finder, requests_post_place_search := resolver\<rparr>) cfg d rq
           = create_query_result e cfg d rq"
proof -
  from create_query_result_read [OF assms(1) assms(4)]
  have d1: "d1 = d" and r1: "response_field ''deviations'' resp1 =
           (case r_auth_token rq of None \<Rightarrow> None
            | Some token \<Rightarrow>
               (case verify_auth_token e d token of None \<Rightarrow> None
                | Some usr \<Rightarrow>
                   (case requested_query d usr rq of None \<Rightarrow> None
                    | Some qry \<Rightarrow>
                       Some (JList (map deviation_json
                         (map (\<lambda>l. \<lparr>d_name = l_keyword l, d_lat = lat l, d_lng = lng l\<rparr>)
                            (filter (\<lambda>l. l_query_id l = Some (q_id qry)) (locations d))))))))"
    by simp_all
  from create_query_result_read [OF assms(2) assms(5) [unfolded d1],
         unfolded verify_auth_token_loads [OF assms(3)]]
  have d2: "d2 = d" and r2: "response_field ''deviations'' resp2 =
           (case r_auth_token rq of None \<Rightarrow> None
            | Some token \<Rightarrow>
               (case verify_auth_token e d token of None \<Rightarrow> None
                | Some usr \<Rightarrow>
                   (case requested_query d usr rq of None \<Rightarrow> None
                    | Some qry \<Rightarrow>
                       Some (JList (map deviation_json
                         (map (\<lambda>l. \<lparr>d_name = l_keyword l, d_lat = lat l, d_lng = lng l\<rparr>)
                            (filter (\<lambda>l. l_query_id l = Some (q_id qry)) (locations d))))))))"
    by simp_all
  from r1 r2 have same: "response_field ''deviations'' resp1 = response_field ''deviations'' resp2"
    by simp
  have stored: "response_field ''status'' resp1 = Some (JInt 0) \<longrightarrow>
            (\<exists>qry \<in> set (queries d).
               response_field ''deviations'' resp1 =
                 Some (JList (map deviation_json
                   (map (\<lambda>l. \<lparr>d_name = l_keyword l, d_lat = lat l, d_lng = lng l\<rparr>)
                      (filter (\<lambda>l. l_query_id l = Some (q_id qry)) (locations d))))))"
  proof
    assume ok: "response_field ''status'' resp1 = Some (JInt 0)"
    from assms(4) ok obtain token usr qry where
      "r_auth_token rq = Some token" "verify_auth_token e d token = Some usr"
      "requested_query d usr rq = Some qry"
      by (auto simp: create_query_result_def response_field_canned response_field_def
            status_message_def split: option.splits sum.splits)
    moreover from this have "qry \<in> set (queries d)"
      by (rule_tac requested_query_mem)
    ultimately show "\<exists>qry \<in> set (queries d).
               response_field ''deviations'' resp1 =
                 Some (JList (map deviation_json
                   (map (\<lambda>l. \<lparr>d_name = l_keyword l, d_lat = lat l, d_lng = lng l\<rparr>)
                      (filter (\<lambda>l. l_query_id l = Some (q_id qry)) (locations d)))))"
      using r1 by auto
  qed
  have indep: "create_query_result
             (e\<lparr>pathDeviationPoints := finder, requests_post_place_search := resolver\<rparr>) cfg d rq
           = create_query_result e cfg d rq"
    by (simp add: create_query_result_def verify_auth_token_def param_dict_of_def
          cong: option.case_cong sum.case_cong prod.case_cong if_cong)
  from d1 d2 same stored indep show ?thesis
    by simp
qed

lemma demo_env_reads: "get_deviation_points_impl demo_env = get_deviation_points"
  by (simp add: demo_env_def)

lemma demo_bob_result_run:
  "create_query_result demo_env demo_config demo_db (demo_request ''bob-token'' (Val 7)) =
     Inr (Dumps (demo_result_json [cafe_sol_json]), demo_db)"
  by code_simp

theorem get_results_is_a_pure_read_witness:
  "create_query_result demo_env demo_config demo_db (demo_request ''bob-token'' (Val 7)) =
     Inr (Dumps (demo_result_json [cafe_sol_json]), demo_db) \<and>
   response_field ''status'' (Dumps (demo_result_json [cafe_sol_json])) = Some (JInt 0) \<and>
   response_field ''deviations'' (Dumps (demo_result_json [cafe_sol_json])) = Some (JList [cafe_sol_json]) \<and>
   bobs_query \<in> set (queries demo_db) \<and>
   Some (JList [cafe_sol_json]) =
     Some (JList (map deviation_json
       (map (\<lambda>l. \<lparr>d_name = l_keyword l, d_lat = lat l, d_lng = lng l\<rparr>)
          (filter (\<lambda>l. l_query_id l = Some (q_id bobs_query)) (locations demo_db))))) \<and>
   create_query_result
       (demo_env\<lparr>pathDeviationPoints := \<lambda>polylines thr keywords s. Inl RequestException,
                 requests_post_place_search := \<lambda>url. Inl RequestException\<rparr>)
       demo_config demo_db (demo_request ''bob-token'' (Val 7)) =
     Inr (Dumps (demo_result_json [cafe_sol_json]), demo_db)"
proof -
  note th = get_results_is_a_pure_read
    [where e = demo_env and e' = demo_env and cfg = demo_config and cfg' = demo_config
       and d = demo_db and rq = "demo_request ''bob-token'' (Val 7)"
       and finder = "\<lambda>polylines thr keywords s. Inl RequestException"
       and resolver = "\<lambda>url. Inl RequestException",
     OF demo_env_reads demo_env_reads refl demo_bob_result_run demo_bob_result_run]
  have st: "response_field ''status'' (Dumps (demo_result_json [cafe_sol_json])) = Some (JInt 0)"
    and dv: "response_field ''deviations'' (Dumps (demo_result_json [cafe_sol_json]))
               = Some (JList [cafe_sol_json])"
    by (simp_all add: response_field_def demo_result_json_def)
  have mem: "bobs_query \<in> set (queries demo_db)"
    by (simp add: demo_db_def)
  have rows: "Some (JList [cafe_sol_json]) =
     Some (JList (map deviation_json
       (map (\<lambda>l. \<lparr>d_name = l_keyword l, d_lat = lat l, d_lng = lng l\<rparr>)
          (filter (\<lambda>l. l_query_id l = Some (q_id bobs_query)) (locations demo_db)))))"
    by (simp add: demo_db_def bobs_stopover_def bobs_query_def cafe_sol_json_def deviation_json_def)
  from th demo_bob_result_run have "create_query_result
       (demo_env\<lparr>pathDeviationPoints := \<lambda>polylines thr keywords s. Inl RequestException,
                 requests_post_place_search := \<lambda>url. Inl RequestException\<rparr>)
       demo_config demo_db (demo_request ''bob-token'' (Val 7)) =
     Inr (Dumps (demo_result_json [cafe_sol_json]), demo_db)"
    by simp
  with st dv mem rows demo_bob_result_run show ?thesis
    by simp
qed


section \<open>The Deviation Point Finder\<close>

lemma along_same: "along D path a a = 0"
  by (simp add: along_def)

lemma along_first:
  "a < b \<Longrightarrow> along D path a b = D (path ! a) (path ! Suc a) + along D path (Suc a) b"
  by (simp add: along_def upt_conv_Cons)

lemma along_last:
  "a \<le> b \<Longrightarrow> along D path a (Suc b) = along D path a b + D (path ! b) (path ! Suc b)"
  by (simp add: along_def)

lemma along_nonneg:
  assumes "\<forall>x y. 0 \<le> D x y"
  shows "0 \<le> along D path a b"
  unfolding along_def using assms by (intro sum_list_nonneg) auto

lemma sample_count:
  assumes "0 < thr" and "\<forall>x y. 0 \<le> D x y" and "0 \<le> acc"
    and "path = pre @ previous # ps" and "i = Suc (length pre)"
  shows "thr * real (length (sample D thr previous acc i ps))
           \<le> acc + along D path (length pre) (length path - 1)"
  using assms(3-)
proof (induction ps arbitrary: pre previous acc i)
  case Nil
  then show ?case by (simp add: along_same)
next
  case (Cons p ps)
  let ?hop = "D previous p"
  have path: "path = (pre @ [previous]) @ p # ps"
    using Cons.prems by simp
  have at: "path ! length pre = previous" "path ! Suc (length pre) = p"
    using Cons.prems by (simp_all add: nth_append)
  have "length pre < length path - 1"
    using Cons.prems by simp
  from along_first [OF this, of D] at
  have split: "along D path (length pre) (length path - 1)
                 = ?hop + along D path (Suc (length pre)) (length path - 1)"
    by simp
  have hop: "0 \<le> ?hop"
    using assms(2) by simp
  have rest: "0 \<le> along D path (Suc (length pre)) (length path - 1)"
    by (rule along_nonneg [OF assms(2)])
  show ?case
  proof (cases "thr \<le> acc + ?hop")
    case True
    show ?thesis
    proof (cases "ps = []")
      case True
      with \<open>thr \<le> acc + ?hop\<close> Cons.prems(1) hop rest split show ?thesis
        by simp
    next
      case False
      from Cons.IH [of 0 "pre @ [previous]" p "Suc i"] path Cons.prems
      have "thr * real (length (sample D thr p 0 (Suc i) ps))
              \<le> along D path (Suc (length pre)) (length path - 1)"
        by simp
      with True False split show ?thesis
        by (simp add: algebra_simps)
    qed
  next
    case False
    from Cons.IH [of "acc + ?hop" "pre @ [previous]" p "Suc i"] path Cons.prems hop
    have "thr * real (length (sample D thr p (acc + ?hop) (Suc i) ps))
            \<le> acc + ?hop + along D path (Suc (length pre)) (length path - 1)"
      by simp
    with False split show ?thesis
      by simp
  qed
qed

lemma sample_spaced:
  assumes "path = pre @ previous # ps" and "i = Suc (length pre)"
    and "a \<le> length pre" and "acc = along D path a (length pre)"
  shows "spaced D thr path a (map fst (sample D thr previous acc i ps))"
  using assms
proof (induction ps arbitrary: pre previous acc i a)
  case Nil
  then show ?case by simp
next
  case (Cons p ps)
  let ?hop = "D previous p"
  have path: "path = (pre @ [previous]) @ p # ps"
    using Cons.prems by simp
  have at: "path ! length pre = previous" "path ! Suc (length pre) = p"
    using Cons.prems by (simp_all add: nth_append)
  from along_last [OF Cons.prems(3), of D path] at Cons.prems(4)
  have acc': "acc + ?hop = along D path a (Suc (length pre))"
    by simp
  show ?case
  proof (cases "thr \<le> acc + ?hop")
    case True
    show ?thesis
    proof (cases "ps = []")
      case True
      with \<open>thr \<le> acc + ?hop\<close> show ?thesis by simp
    next
      case False
      from Cons.IH [of "pre @ [previous]" p "Suc i" i 0] path Cons.prems
      have "spaced D thr path i (map fst (sample D thr p 0 (Suc i) ps))"
        by (simp add: along_same)
      with True False acc' Cons.prems show ?thesis
        by simp
    qed
  next
    case False
    from Cons.IH [of "pre @ [previous]" p "Suc i" a "acc + ?hop"] path Cons.prems acc'
    have "spaced D thr path a (map fst (sample D thr p (acc + ?hop) (Suc i) ps))"
      by simp
    with False show ?thesis
      by simp
  qed
qed

lemma sample_points:
  assumes "path = pre @ previous # ps" and "i = Suc (length pre)"
  shows "map snd (sample D thr previous acc i ps) = map ((!) path) (map fst (sample D thr previous acc i ps))"
  using assms
proof (induction ps arbitrary: pre previous acc i)
  case Nil
  then show ?case by simp
next
  case (Cons p ps)
  have path: "path = (pre @ [previous]) @ p # ps"
    using Cons.prems by simp
  have at: "path ! i = p"
    using Cons.prems by (simp add: nth_append)
  from Cons.IH [of "pre @ [previous]" p "Suc i"] path Cons.prems
  have ih: "\<And>acc. map snd (sample D thr p acc (Suc i) ps)
                   = map ((!) path) (map fst (sample D thr p acc (Suc i) ps))"
    by simp
  show ?case
    using ih at by simp
qed

lemma emitted_points:
  "map snd (emitted D thr path) = map ((!) path) (map fst (emitted D thr path))"
proof (cases path)
  case Nil
  then show ?thesis by (simp add: emitted_def)
next
  case (Cons p0 ps)
  from sample_points [of path "[]" p0 ps 1 D thr 0] Cons show ?thesis
    by (simp add: emitted_def)
qed

lemma emitted_count:
  assumes "0 < thr" and "\<forall>x y. 0 \<le> D x y"
  shows "thr * real (length (emitted D thr path)) \<le> total_path_length D path"
proof (cases path)
  case Nil
  then show ?thesis by (simp add: emitted_def total_path_length_def along_same)
next
  case (Cons p0 ps)
  from sample_count [OF assms, of 0 path "[]" p0 ps 1] Cons show ?thesis
    by (simp add: emitted_def total_path_length_def)
qed

lemma emitted_spaced: "spaced D thr path 0 (map fst (emitted D thr path))"
proof (cases path)
  case Nil
  then show ?thesis by (simp add: emitted_def)
next
  case (Cons p0 ps)
  from sample_spaced [of path "[]" p0 ps 1 0 0 D thr] Cons show ?thesis
    by (simp add: emitted_def along_same)
qed

text \<open>
  C5. For a positive threshold and a distance that is never negative, the finder returns
  candidates and no error; their number is at most the floor of the path length divided
  by the threshold; each emitted position lies at least the threshold further along the
  path than the one before it (the first one counted from the origin); and a path
  shorter than the threshold gives no candidate.
\<close>

theorem finder_count_and_spacing:
  assumes "0 < thr" and "\<forall>x y. 0 \<le> D x y"
  shows "\<exists>cs js. deviation_point_finder D thr segments = Inr cs \<and>
           js = map fst (emitted D thr (concat segments)) \<and>
           cs = map ((!) (concat segments)) js \<and>
           int (length cs) \<le> \<lfloor>total_path_length D (concat segments) / thr\<rfloor> \<and>
           spaced D thr (concat segments) 0 js \<and>
           (total_path_length D (concat segments) < thr \<longrightarrow> cs = [])"
proof -
  let ?path = "concat segments"
  let ?em = "emitted D thr ?path"
  have run: "deviation_point_finder D thr segments = Inr (map snd ?em)"
    using assms(1) by (simp add: deviation_point_finder_def)
  note pts = emitted_points [of D thr ?path]
  note count = emitted_count [OF assms, of ?path]
  then have "real (length ?em) \<le> total_path_length D ?path / thr"
    using assms(1) by (simp add: pos_le_divide_eq mult.commute)
  then have bound: "int (length (map snd ?em)) \<le> \<lfloor>total_path_length D ?path / thr\<rfloor>"
    by (simp add: le_floor_iff)
  note sp = emitted_spaced [of D thr ?path]
  have short: "total_path_length D ?path < thr \<longrightarrow> map snd ?em = []"
  proof
    assume "total_path_length D ?path < thr"
    with count have "thr * real (length ?em) < thr * 1"
      by simp
    with assms(1) have "real (length ?em) < 1"
      by (simp only: mult_less_cancel_left_pos)
    then show "map snd ?em = []"
      by simp
  qed
  from run pts bound sp short show ?thesis
    by auto
qed

lemma line_dist_nonneg: "\<forall>x y. 0 \<le> line_dist x y"
  by (simp add: line_dist_def)

lemma demo_road_run:
  "deviation_point_finder line_dist 10 [[0, 5, 10], [10, 15, 20, 25]] = Inr [10, 20]"
  by (simp add: deviation_point_finder_def emitted_def line_dist_def)

lemma demo_road_positions:
  "map fst (emitted line_dist 10 (concat [[0, 5, 10], [10, 15, 20, 25]])) = [2, 5]"
  by (simp add: emitted_def line_dist_def)

lemma demo_road_length:
  "total_path_length line_dist (concat [[0, 5, 10], [10, 15, 20, 25]]) = 25"
  by (simp add: total_path_length_def along_def line_dist_def upt_rec)

lemma demo_short_road_length: "total_path_length line_dist (concat [[0, 4], [4, 7]]) = 7"
  by (simp add: total_path_length_def along_def line_dist_def upt_rec)

theorem finder_count_and_spacing_witness:
  "deviation_point_finder line_dist 10 [[0, 5, 10], [10, 15, 20, 25]] = Inr [10, 20] \<and>
   total_path_length line_dist (concat [[0, 5, 10], [10, 15, 20, 25]]) = 25 \<and>
   int (length [10, 20 :: real]) = \<lfloor>25 / 10 :: real\<rfloor> \<and>
   spaced line_dist 10 (concat [[0, 5, 10], [10, 15, 20, 25]]) 0 [2, 5] \<and>
   total_path_length line_dist (concat [[0, 4], [4, 7]]) = 7 \<and>
   deviation_point_finder line_dist 10 [[0, 4], [4, 7]] = Inr []"
proof -
  have pos: "(0::real) < 10"
    by simp
  from finder_count_and_spacing [OF pos line_dist_nonneg, of "[[0, 5, 10], [10, 15, 20, 25]]"]
  have sp: "spaced line_dist 10 (concat [[0, 5, 10], [10, 15, 20, 25]]) 0 [2, 5]"
    unfolding demo_road_positions by blast
  from finder_count_and_spacing [OF pos line_dist_nonneg, of "[[0, 4], [4, 7]]"]
  have short: "deviation_point_finder line_dist 10 [[0, 4], [4, 7]] = Inr []"
    unfolding demo_short_road_length by auto
  have fl: "int (length [10, 20 :: real]) = \<lfloor>25 / 10 :: real\<rfloor>"
    by (simp add: floor_eq_iff)
  from sp short fl demo_road_run demo_road_length demo_short_road_length show ?thesis
    by blast
qed


end
